theory Spec2Isabelle
  imports Main "HOL-Library.Sublist"
begin

section \<open>Text primitives of the Python runtime\<close>

text \<open>
  Strings are lists of 8-bit characters.  The text functions below are those of Python
  on ASCII text, that is on texts all of whose characters have a code below 128
  (\<open>ascii\<close>); on other texts Python also strips whitespace such as U+00A0 and
  lower-cases letters such as U+00C9, which these functions leave alone.  The statements
  about the search query, which depend on how the query, the title, the cast and the
  director are stripped and lower-cased, are therefore stated for ASCII texts, explicitly.

  Python's \<^verbatim>\<open>str.isspace\<close> holds on ASCII for the codes 9 to 13, 28 to 31 and 32; the
  same characters are matched by \<^verbatim>\<open>\s\<close> in a regular expression over \<^verbatim>\<open>str\<close>.
\<close>

definition ascii :: "string \<Rightarrow> bool" where
  "ascii s = list_all (\<lambda>c. (of_char c :: nat) < 128) s"

definition is_space :: "char \<Rightarrow> bool" where
  "is_space c = (c \<in> set [CHR 0x09, CHR 0x0A, CHR 0x0B, CHR 0x0C, CHR 0x0D,
                          CHR 0x1C, CHR 0x1D, CHR 0x1E, CHR 0x1F, CHR 0x20])"

text \<open>\<^verbatim>\<open>s.strip()\<close>: leading and trailing whitespace removed.\<close>

definition strip :: "string \<Rightarrow> string" where
  "strip s = rev (dropWhile is_space (rev (dropWhile is_space s)))"

text \<open>
  \<^verbatim>\<open>s.split(",")\<close>: the pieces between the commas, in order; an empty piece is kept, so
  the result always has one more element than the text has commas.
\<close>

fun split_acc :: "string \<Rightarrow> string \<Rightarrow> string list" where
  "split_acc acc [] = [rev acc]"
| "split_acc acc (c # cs) =
     (if c = CHR '','' then rev acc # split_acc [] cs else split_acc (c # acc) cs)"

definition split_comma :: "string \<Rightarrow> string list" where
  "split_comma s = split_acc [] s"

text \<open>\<^verbatim>\<open>s.lower()\<close> on ASCII text.\<close>

definition lower_char :: "char \<Rightarrow> char" where
  "lower_char c =
     (case map_of (zip ''ABCDEFGHIJKLMNOPQRSTUVWXYZ'' ''abcdefghijklmnopqrstuvwxyz'') c of
        None \<Rightarrow> c
      | Some l \<Rightarrow> l)"

definition lower :: "string \<Rightarrow> string" where
  "lower s = map lower_char s"

definition is_digit :: "char \<Rightarrow> bool" where
  "is_digit c = (c \<in> set ''0123456789'')"

definition digit_val :: "char \<Rightarrow> nat" where
  "digit_val c = of_char c - 48"

text \<open>The number a run of decimal digits denotes.\<close>

definition digits_value :: "string \<Rightarrow> nat" where
  "digits_value ds = foldl (\<lambda>n c. 10 * n + digit_val c) 0 ds"

text \<open>
  \<^verbatim>\<open>astype(float)\<close> on a run of digits: the 64-bit float nearest to the number, ties
  to the even significand.  Such a float is a whole number or infinite.  Numbers below
  \<open>2 ^ 53\<close> are kept as they are; a larger number of \<open>b\<close> bits is rounded to a multiple
  of \<open>2 ^ (b - 53)\<close>, and the result is infinite when the rounded number reaches
  \<open>2 ^ 1024\<close>.
\<close>

datatype float64 = Finite nat | Infinity

fun bit_length :: "nat \<Rightarrow> nat" where
  "bit_length n = (if n = 0 then 0 else Suc (bit_length (n div 2)))"

declare bit_length.simps [simp del]

definition to_float :: "nat \<Rightarrow> float64" where
  "to_float n =
     (if n < 2 ^ 53 then Finite n
      else (let u = 2 ^ (bit_length n - 53);
                q = n div u;
                r = n mod u;
                m = (if 2 * r < u \<or> (2 * r = u \<and> even q) then q else q + 1)
            in if 2 ^ 1024 \<le> m * u then Infinity else Finite (m * u)))"

definition astype_float :: "string \<Rightarrow> float64" where
  "astype_float ds = to_float (digits_value ds)"

section \<open>Errors\<close>

datatype error = KeyError string | ValueError | ReError

section \<open>The raw table read from the CSV file\<close>

text \<open>
  A cell is \<open>None\<close> when pandas reads it as missing (NaN).  \<open>raw_columns\<close> holds the
  column names after the normalisation of line 46; a cell of a column that is not in
  the file is never read.  \<open>raw_release_year\<close> is the cell after
  \<^verbatim>\<open>pd.to_numeric(..., errors="coerce")\<close>.
\<close>

record raw_row =
  raw_type :: "string option"
  raw_title :: "string option"
  raw_director :: "string option"
  raw_cast :: "string option"
  raw_country :: "string option"
  raw_date_added :: "string option"
  raw_release_year :: "int option"
  raw_rating :: "string option"
  raw_duration :: "string option"
  raw_listed_in :: "string option"

record raw_table =
  raw_columns :: "string list"
  raw_rows :: "raw_row list"

section \<open>The loader\<close>

datatype timestamp = Timestamp (ts_year: int) (ts_month: int) (ts_day: int)

text \<open>
  \<^verbatim>\<open>pd.to_datetime(..., errors="coerce")\<close>.  The parser of date texts belongs to pandas
  and is a parameter; what pandas fixes before it parses is modelled: the empty text
  and the texts it reads as null give \<open>None\<close> (NaT).
\<close>

definition nat_strings :: "string list" where
  "nat_strings = [''NaT'', ''nat'', ''NAT'', ''nan'', ''NaN'', ''NAN'']"

definition to_datetime :: "(string \<Rightarrow> timestamp option) \<Rightarrow> string \<Rightarrow> timestamp option" where
  "to_datetime parse s = (if s = [] \<or> s \<in> set nat_strings then None else parse s)"

text \<open>\<^verbatim>\<open>astype(str)\<close> on a cell: a missing cell becomes the text \<^verbatim>\<open>nan\<close>.\<close>

definition astype_str :: "string option \<Rightarrow> string" where
  "astype_str x = (case x of None \<Rightarrow> ''nan'' | Some s \<Rightarrow> s)"

text \<open>\<^verbatim>\<open>df.get(name, default)\<close> for one cell, and \<^verbatim>\<open>fillna\<close>.\<close>

definition df_get :: "string list \<Rightarrow> string \<Rightarrow> string option \<Rightarrow> string \<Rightarrow> string option" where
  "df_get cols name cell dflt = (if name \<in> set cols then cell else Some dflt)"

definition fillna :: "string \<Rightarrow> string option \<Rightarrow> string option" where
  "fillna dflt x = (case x of None \<Rightarrow> Some dflt | Some s \<Rightarrow> Some s)"

text \<open>The two lambdas of lines 67 to 72.\<close>

definition country_list_of :: "string option \<Rightarrow> string list" where
  "country_list_of x =
     (case x of Some s \<Rightarrow> map strip (split_comma s) | None \<Rightarrow> [''Unknown''])"

definition genre_list_of :: "string option \<Rightarrow> string list" where
  "genre_list_of x = (case x of Some s \<Rightarrow> map strip (split_comma s) | None \<Rightarrow> [])"

text \<open>
  \<^verbatim>\<open>str.extract(r"(\d+)\s*min")\<close> and \<^verbatim>\<open>str.extract(r"(\d+)\s*Season")\<close>: the first
  group of the leftmost match of \<^verbatim>\<open>(\d+)\s*\<close> followed by a literal.  At a start
  position the digits and then the whitespace are taken greedily.  Giving back a digit
  or a whitespace character cannot produce a match, since the character given back would
  have to start the rest of the pattern, which starts with whitespace or a letter; so
  the greedy attempt decides each start position.
\<close>

definition match_number_then :: "string \<Rightarrow> string \<Rightarrow> string option" where
  "match_number_then lit s =
     (let ds = takeWhile is_digit s;
          rest = dropWhile is_space (dropWhile is_digit s)
      in if ds \<noteq> [] \<and> prefix lit rest then Some ds else None)"

fun search_number_then :: "string \<Rightarrow> string \<Rightarrow> string option" where
  "search_number_then lit [] = None"
| "search_number_then lit (c # cs) =
     (case match_number_then lit (c # cs) of
        Some ds \<Rightarrow> Some ds
      | None \<Rightarrow> search_number_then lit cs)"

definition str_extract :: "string \<Rightarrow> string option \<Rightarrow> string option" where
  "str_extract lit x = (case x of None \<Rightarrow> None | Some s \<Rightarrow> search_number_then lit s)"

record row =
  type :: "string option"
  title :: "string option"
  director :: "string option"
  cast :: "string option"
  country :: "string option"
  date_added :: "timestamp option"
  release_year :: "int option"
  rating :: "string option"
  duration :: "string option"
  listed_in :: "string option"
  year_added :: "int option"
  month_added :: "int option"
  country_list :: "string list"
  genre_list :: "string list"
  movie_minutes :: "float64 option"
  seasons :: "float64 option"

text \<open>
  A text column of lines 86 to 88: filled with \<^verbatim>\<open>Unknown\<close> when the column is in the
  table, left alone (absent) otherwise.
\<close>

definition fill_text :: "string list \<Rightarrow> string \<Rightarrow> string option \<Rightarrow> string option" where
  "fill_text cols name cell = (if name \<in> set cols then fillna ''Unknown'' cell else None)"

definition load_row :: "(string \<Rightarrow> timestamp option) \<Rightarrow> string list \<Rightarrow> raw_row \<Rightarrow> row" where
  "load_row parse cols raw =
     (let d = (if ''date_added'' \<in> set cols
               then to_datetime parse (strip (astype_str (raw_date_added raw)))
               else None);
          c = fillna ''Unknown'' (df_get cols ''country'' (raw_country raw) ''Unknown'');
          g = fillna '''' (df_get cols ''listed_in'' (raw_listed_in raw) '''');
          du = fillna '''' (df_get cols ''duration'' (raw_duration raw) '''')
      in \<lparr> type = fill_text cols ''type'' (raw_type raw),
           title = fill_text cols ''title'' (raw_title raw),
           director = fill_text cols ''director'' (raw_director raw),
           cast = fill_text cols ''cast'' (raw_cast raw),
           country = c,
           date_added = d,
           release_year = (if ''release_year'' \<in> set cols then raw_release_year raw else None),
           rating = fill_text cols ''rating'' (raw_rating raw),
           duration = du,
           listed_in = g,
           year_added = map_option ts_year d,
           month_added = map_option ts_month d,
           country_list = country_list_of c,
           genre_list = genre_list_of g,
           movie_minutes = map_option astype_float (str_extract ''min'' du),
           seasons = map_option astype_float (str_extract ''Season'' du) \<rparr>)"

text \<open>The loaded table: its column names and its rows.\<close>

record table =
  columns :: "string list"
  rows :: "row list"

definition add_col :: "string list \<Rightarrow> string \<Rightarrow> string list" where
  "add_col cols name = (if name \<in> set cols then cols else cols @ [name])"

definition load_data :: "(string \<Rightarrow> timestamp option) \<Rightarrow> raw_table \<Rightarrow> table" where
  "load_data parse t =
     \<lparr> columns = foldl add_col (raw_columns t)
                   [''year_added'', ''month_added'', ''country'', ''listed_in'', ''country_list'',
                    ''genre_list'', ''duration'', ''movie_minutes'', ''seasons''],
       rows = map (load_row parse (raw_columns t)) (raw_rows t) \<rparr>"

section \<open>The selection state and the filter application\<close>

record filter_state =
  year_range :: "int \<times> int"
  type_sel :: "string list"
  country_sel :: "string list"
  genre_sel :: "string list"
  rating_sel :: "string list"
  query :: string

text \<open>\<^verbatim>\<open>df[name]\<close> raises \<^verbatim>\<open>KeyError\<close> when the table has no such column.\<close>

definition need :: "table \<Rightarrow> string \<Rightarrow> error + 'a \<Rightarrow> error + 'a" where
  "need df name k = (if name \<in> set (columns df) then k else Inl (KeyError name))"

definition bind_result :: "error + 'a \<Rightarrow> ('a \<Rightarrow> error + 'b) \<Rightarrow> error + 'b" where
  "bind_result x k = (case x of Inl e \<Rightarrow> Inl e | Inr v \<Rightarrow> k v)"

text \<open>Line 102: \<^verbatim>\<open>df["year_added"].notna().any()\<close>, on the full table.\<close>

definition use_year_added :: "table \<Rightarrow> bool" where
  "use_year_added df = list_ex (\<lambda>r. year_added r \<noteq> None) (rows df)"

text \<open>
  Lines 103 to 109: the bounds of the slider, that is the full range of the active time
  base.
\<close>

definition year_bounds :: "table \<Rightarrow> error + int \<times> int" where
  "year_bounds df =
     need df ''year_added''
       (if use_year_added df
        then (let ys = List.map_filter year_added (rows df)
              in Inr (Min (set ys), Max (set ys)))
        else need df ''release_year''
              (let rs = List.map_filter release_year (rows df)
               in Inr (if rs \<noteq> [] then Min (set rs) else 1950,
                       if rs \<noteq> [] then Max (set rs) else 2021)))"

text \<open>
  \<^verbatim>\<open>Series.between(lo, hi, inclusive="both")\<close> and \<^verbatim>\<open>Series.isin\<close> on one cell: a
  missing cell gives \<open>False\<close>.
\<close>

definition between :: "int option \<Rightarrow> int \<times> int \<Rightarrow> bool" where
  "between x rng = (case x of None \<Rightarrow> False | Some y \<Rightarrow> fst rng \<le> y \<and> y \<le> snd rng)"

definition isin :: "string option \<Rightarrow> string list \<Rightarrow> bool" where
  "isin x sel = (case x of None \<Rightarrow> False | Some s \<Rightarrow> s \<in> set sel)"

text \<open>\<^verbatim>\<open>any(c in lst for c in sel)\<close>.\<close>

definition any_in :: "string list \<Rightarrow> string list \<Rightarrow> bool" where
  "any_in sel lst = list_ex (\<lambda>c. c \<in> set lst) sel"

text \<open>
  \<^verbatim>\<open>Series.str.contains(q, na=False)\<close> compiles \<open>q\<close> as a regular expression (the
  default \<^verbatim>\<open>regex=True\<close>) and searches each cell.  A pattern without the characters
  \<^verbatim>\<open>^ $ * + ? { } [ ] \ | ( )\<close> is a sequence of ordinary characters and dots: an
  ordinary character matches itself, a dot matches every character but the newline.
  These patterns are modelled here; every other pattern goes to the regular expression
  engine of Python, a parameter, which either refuses the pattern or gives a matcher.
\<close>

type_synonym regex_engine = "string \<Rightarrow> error + (string \<Rightarrow> bool)"

definition re_special :: "char \<Rightarrow> bool" where
  "re_special c = (c \<in> set ''^$*+?{}[]|()'' \<or> c = CHR 0x5C)"

fun match_here :: "string \<Rightarrow> string \<Rightarrow> bool" where
  "match_here [] s = True"
| "match_here (p # ps) [] = False"
| "match_here (p # ps) (c # cs) =
     ((if p = CHR ''.'' then c \<noteq> CHR 0x0A else p = c) \<and> match_here ps cs)"

fun re_search :: "string \<Rightarrow> string \<Rightarrow> bool" where
  "re_search pat [] = match_here pat []"
| "re_search pat (c # cs) = (match_here pat (c # cs) \<or> re_search pat cs)"

definition re_compile :: "regex_engine \<Rightarrow> string \<Rightarrow> error + (string \<Rightarrow> bool)" where
  "re_compile engine pat = (if list_ex re_special pat then engine pat else Inr (re_search pat))"

definition str_contains :: "(string \<Rightarrow> bool) \<Rightarrow> string option \<Rightarrow> bool" where
  "str_contains m x = (case x of None \<Rightarrow> False | Some s \<Rightarrow> m s)"

definition str_lower :: "string option \<Rightarrow> string option" where
  "str_lower x = map_option lower x"

text \<open>
  The frame \<open>f\<close> of lines 154 to 175 is a table: each step reads columns of the
  frame it gets and gives the next frame.

  \<^verbatim>\<open>f[mask]\<close> with a boolean mask keeps the rows where the mask holds and all columns.
\<close>

definition keep_rows :: "table \<Rightarrow> (row \<Rightarrow> bool) \<Rightarrow> table" where
  "keep_rows f p = f\<lparr>rows := filter p (rows f)\<rparr>"

text \<open>
  \<^verbatim>\<open>f[f[col].apply(fn)]\<close>.  On a frame with rows, \<^verbatim>\<open>apply\<close> gives a boolean mask.
  On a frame without rows it gives an empty series of the column's own type
  (\<^verbatim>\<open>object\<close>), which pandas does not take for a boolean mask but for a list of column
  labels, an empty one: the result is a frame without rows and without columns.
\<close>

definition keep_applied :: "table \<Rightarrow> (row \<Rightarrow> bool) \<Rightarrow> table" where
  "keep_applied f p =
     (if rows f = [] then \<lparr> columns = [], rows = [] \<rparr> else keep_rows f p)"

text \<open>Lines 155 to 156.\<close>

definition filter_type :: "filter_state \<Rightarrow> table \<Rightarrow> error + table" where
  "filter_type st f =
     (if type_sel st \<noteq> []
      then need f ''type'' (Inr (keep_rows f (\<lambda>r. isin (type r) (type_sel st))))
      else Inr f)"

text \<open>Lines 157 to 160; \<open>use\<close> is the value of \<^verbatim>\<open>use_year_added\<close>.\<close>

definition filter_time :: "bool \<Rightarrow> filter_state \<Rightarrow> table \<Rightarrow> error + table" where
  "filter_time use st f =
     (if use
      then need f ''year_added''
             (Inr (keep_rows f (\<lambda>r. between (year_added r) (year_range st))))
      else need f ''release_year''
             (Inr (keep_rows f (\<lambda>r. between (release_year r) (year_range st)))))"

text \<open>Lines 162 to 167.\<close>

definition filter_country :: "filter_state \<Rightarrow> table \<Rightarrow> error + table" where
  "filter_country st f =
     (if country_sel st \<noteq> []
      then need f ''country_list''
             (Inr (keep_applied f (\<lambda>r. any_in (country_sel st) (country_list r))))
      else Inr f)"

definition filter_genre :: "filter_state \<Rightarrow> table \<Rightarrow> error + table" where
  "filter_genre st f =
     (if genre_sel st \<noteq> []
      then need f ''genre_list''
             (Inr (keep_applied f (\<lambda>r. any_in (genre_sel st) (genre_list r))))
      else Inr f)"

definition filter_rating :: "filter_state \<Rightarrow> table \<Rightarrow> error + table" where
  "filter_rating st f =
     (if rating_sel st \<noteq> [] \<and> ''rating'' \<in> set (columns f)
      then Inr (keep_rows f (\<lambda>r. isin (rating r) (rating_sel st)))
      else Inr f)"

text \<open>
  Lines 169 to 175.  The three masks are built in order: the title column is read and
  the pattern compiled before the cast and director columns are read.
\<close>

definition query_mask :: "(string \<Rightarrow> bool) \<Rightarrow> row \<Rightarrow> bool" where
  "query_mask m r =
     (str_contains m (str_lower (title r))
      \<or> str_contains m (str_lower (cast r))
      \<or> str_contains m (str_lower (director r)))"

definition filter_query :: "regex_engine \<Rightarrow> filter_state \<Rightarrow> table \<Rightarrow> error + table" where
  "filter_query engine st f =
     (if strip (query st) \<noteq> []
      then (let q = strip (lower (query st))
            in need f ''title''
                 (bind_result (re_compile engine q) (\<lambda>m.
                    need f ''cast'' (need f ''director'' (Inr (keep_rows f (query_mask m)))))))
      else Inr f)"

text \<open>
  Lines 154 to 175, with the time base of line 102 read from the full table before any
  row is filtered.  The result is the rows of the last frame.
\<close>

definition apply_filters :: "regex_engine \<Rightarrow> table \<Rightarrow> filter_state \<Rightarrow> error + row list" where
  "apply_filters engine df st =
     need df ''year_added''
       (bind_result (filter_type st df) (\<lambda>f1.
        bind_result (filter_time (use_year_added df) st f1) (\<lambda>f2.
        bind_result (filter_country st f2) (\<lambda>f3.
        bind_result (filter_genre st f3) (\<lambda>f4.
        bind_result (filter_rating st f4) (\<lambda>f5.
        bind_result (filter_query engine st f5) (\<lambda>f6.
        Inr (rows f6))))))))"

section \<open>The top-genre metric\<close>

text \<open>
  Lines 196 to 202.  \<^verbatim>\<open>explode\<close> gives one entry for each element of a list and a
  missing entry for an empty list; \<^verbatim>\<open>replace("", np.nan).dropna()\<close> removes the empty
  texts and the missing entries.
\<close>

definition explode :: "string list list \<Rightarrow> string option list" where
  "explode ls = concat (map (\<lambda>l. if l = [] then [None] else map Some l) ls)"

definition replace_empty :: "string option list \<Rightarrow> string option list" where
  "replace_empty xs = map (\<lambda>x. if x = Some [] then None else x) xs"

definition dropna :: "string option list \<Rightarrow> string list" where
  "dropna xs = List.map_filter (\<lambda>x. x) xs"

text \<open>
  \<^verbatim>\<open>value_counts()\<close>: the distinct values with their numbers of occurrences, the most
  frequent first; values of the same frequency are kept in the order in which they
  first occur.
\<close>

definition first_seen :: "string list \<Rightarrow> string list" where
  "first_seen xs = rev (remdups (rev xs))"

definition value_counts :: "string list \<Rightarrow> (string \<times> nat) list" where
  "value_counts xs =
     sort_key (\<lambda>p. - int (snd p)) (map (\<lambda>v. (v, count_list xs v)) (first_seen xs))"

text \<open>
  \<^verbatim>\<open>idxmax()\<close>: the label of the first largest count; \<^verbatim>\<open>ValueError\<close> on an empty
  series.
\<close>

fun idxmax :: "(string \<times> nat) list \<Rightarrow> error + string" where
  "idxmax [] = Inl ValueError"
| "idxmax (p # ps) = Inr (fst (fold (\<lambda>q best. if snd best < snd q then q else best) ps p))"

text \<open>The placeholder is the em dash, three bytes in UTF-8.\<close>

definition placeholder :: string where
  "placeholder = [CHR 0xE2, CHR 0x80, CHR 0x94]"

definition top_genre :: "row list \<Rightarrow> error + string" where
  "top_genre f =
     (if f \<noteq> [] \<and> list_ex (\<lambda>r. genre_list r \<noteq> []) f
      then idxmax (value_counts (dropna (replace_empty (explode (map genre_list f)))))
      else Inr placeholder)"

section \<open>Vocabulary of the statements\<close>

text \<open>The value of the active time base of a row.\<close>

definition time_value :: "table \<Rightarrow> row \<Rightarrow> int option" where
  "time_value df r = (if use_year_added df then year_added r else release_year r)"

text \<open>The criteria of the four selection sets, of the query, and all criteria together.\<close>

definition passes_sets :: "table \<Rightarrow> filter_state \<Rightarrow> row \<Rightarrow> bool" where
  "passes_sets df st r =
     ((type_sel st = [] \<or> isin (type r) (type_sel st))
      \<and> (country_sel st = [] \<or> any_in (country_sel st) (country_list r))
      \<and> (genre_sel st = [] \<or> any_in (genre_sel st) (genre_list r))
      \<and> (rating_sel st = [] \<or> ''rating'' \<notin> set (columns df) \<or> isin (rating r) (rating_sel st)))"

definition passes_query :: "regex_engine \<Rightarrow> filter_state \<Rightarrow> row \<Rightarrow> bool" where
  "passes_query engine st r =
     (strip (query st) = []
      \<or> (case re_compile engine (strip (lower (query st))) of
            Inl e \<Rightarrow> False
          | Inr m \<Rightarrow> query_mask m r))"

definition selected :: "regex_engine \<Rightarrow> table \<Rightarrow> filter_state \<Rightarrow> row \<Rightarrow> bool" where
  "selected engine df st r =
     (passes_sets df st r \<and> between (time_value df r) (year_range st) \<and> passes_query engine st r)"

text \<open>
  The columns that are read are there, the pattern compiles, and no column is read after
  a country or genre filter (which may leave a frame without columns): under these
  conditions the filter application raises nothing.
\<close>

definition columns_ok :: "regex_engine \<Rightarrow> table \<Rightarrow> filter_state \<Rightarrow> bool" where
  "columns_ok engine df st =
     (''year_added'' \<in> set (columns df)
      \<and> (type_sel st \<noteq> [] \<longrightarrow> ''type'' \<in> set (columns df))
      \<and> (\<not> use_year_added df \<longrightarrow> ''release_year'' \<in> set (columns df))
      \<and> (country_sel st \<noteq> [] \<longrightarrow> ''country_list'' \<in> set (columns df))
      \<and> (genre_sel st \<noteq> [] \<longrightarrow> ''genre_list'' \<in> set (columns df))
      \<and> (country_sel st = [] \<or> genre_sel st = [])
      \<and> (strip (query st) \<noteq> [] \<longrightarrow>
            country_sel st = [] \<and> genre_sel st = []
            \<and> ''title'' \<in> set (columns df) \<and> ''cast'' \<in> set (columns df)
            \<and> ''director'' \<in> set (columns df)
            \<and> \<not> isl (re_compile engine (strip (lower (query st))))))"

text \<open>
  The second state adds one constraint to the first: one empty selection set becomes
  non-empty, or the year range narrows; nothing else changes.
\<close>

definition adds_constraint :: "filter_state \<Rightarrow> filter_state \<Rightarrow> bool" where
  "adds_constraint st1 st2 =
     ((type_sel st1 = [] \<and> type_sel st2 \<noteq> [] \<and> st2 = st1\<lparr>type_sel := type_sel st2\<rparr>)
      \<or> (country_sel st1 = [] \<and> country_sel st2 \<noteq> []
          \<and> st2 = st1\<lparr>country_sel := country_sel st2\<rparr>)
      \<or> (genre_sel st1 = [] \<and> genre_sel st2 \<noteq> [] \<and> st2 = st1\<lparr>genre_sel := genre_sel st2\<rparr>)
      \<or> (rating_sel st1 = [] \<and> rating_sel st2 \<noteq> []
          \<and> st2 = st1\<lparr>rating_sel := rating_sel st2\<rparr>)
      \<or> (fst (year_range st1) \<le> fst (year_range st2)
          \<and> snd (year_range st2) \<le> snd (year_range st1)
          \<and> st2 = st1\<lparr>year_range := year_range st2\<rparr>))"

text \<open>The rows whose type is in the type set, and nothing else.\<close>

definition type_subset :: "table \<Rightarrow> filter_state \<Rightarrow> row list" where
  "type_subset df st = filter (\<lambda>r. isin (type r) (type_sel st)) (rows df)"

text \<open>
  The search as plain substring matching: the stripped, lower-cased query is a
  contiguous part of the lower-cased title, cast or director.
\<close>

definition has_substring :: "string \<Rightarrow> string option \<Rightarrow> bool" where
  "has_substring q x = (case x of None \<Rightarrow> False | Some s \<Rightarrow> sublist q (lower s))"

definition substring_mask :: "string \<Rightarrow> row \<Rightarrow> bool" where
  "substring_mask q r =
     (has_substring q (title r) \<or> has_substring q (cast r) \<or> has_substring q (director r))"

text \<open>The title, cast and director of a row are ASCII texts.\<close>

definition ascii_cell :: "string option \<Rightarrow> bool" where
  "ascii_cell x = (case x of None \<Rightarrow> True | Some s \<Rightarrow> ascii s)"

definition ascii_row :: "row \<Rightarrow> bool" where
  "ascii_row r = (ascii_cell (title r) \<and> ascii_cell (cast r) \<and> ascii_cell (director r))"

text \<open>Joining with commas, the inverse of splitting.\<close>

fun join_comma :: "string list \<Rightarrow> string" where
  "join_comma [] = []"
| "join_comma [x] = x"
| "join_comma (x # y # ys) = x @ CHR '','' # join_comma (y # ys)"

section \<open>Example data\<close>

definition example_columns :: "string list" where
  "example_columns = [''type'', ''title'', ''director'', ''cast'', ''country'', ''date_added'',
                      ''release_year'', ''rating'', ''duration'', ''listed_in'']"

text \<open>A date parser that knows one date, and an engine that refuses every pattern.\<close>

definition example_parse :: "string \<Rightarrow> timestamp option" where
  "example_parse s = (if s = ''September 9, 2021'' then Some (Timestamp 2021 9 9) else None)"

definition no_engine :: regex_engine where
  "no_engine pat = Inl ReError"

definition scenario_row :: raw_row where
  "scenario_row =
     \<lparr> raw_type = Some ''Movie'', raw_title = Some ''Kingdom'', raw_director = None,
       raw_cast = None, raw_country = Some ''United States, France'',
       raw_date_added = Some ''September 9, 2021'', raw_release_year = Some 2020,
       raw_rating = Some ''PG'', raw_duration = Some ''90 min'',
       raw_listed_in = Some ''Comedies'' \<rparr>"

text \<open>A row without date, country, rating, duration and genre text.\<close>

definition bare_row :: raw_row where
  "bare_row =
     \<lparr> raw_type = Some ''Movie'', raw_title = Some ''Alpha'', raw_director = None,
       raw_cast = None, raw_country = None, raw_date_added = None,
       raw_release_year = Some 2021, raw_rating = None, raw_duration = None,
       raw_listed_in = None \<rparr>"

text \<open>A movie whose duration is a number that is not a 64-bit float.\<close>

definition long_movie_row :: raw_row where
  "long_movie_row =
     \<lparr> raw_type = Some ''Movie'', raw_title = Some ''Gamma'', raw_director = None,
       raw_cast = None, raw_country = None, raw_date_added = None,
       raw_release_year = Some 2021, raw_rating = None,
       raw_duration = Some ''9007199254740993 min'', raw_listed_in = None \<rparr>"

text \<open>A dated row without genre text.\<close>

definition no_genre_row :: raw_row where
  "no_genre_row =
     \<lparr> raw_type = Some ''Movie'', raw_title = Some ''Beta'', raw_director = None,
       raw_cast = None, raw_country = None, raw_date_added = Some ''September 9, 2021'',
       raw_release_year = Some 2021, raw_rating = None, raw_duration = Some ''1 Season'',
       raw_listed_in = None \<rparr>"

definition example_table :: table where
  "example_table =
     load_data example_parse
       \<lparr> raw_columns = example_columns, raw_rows = [scenario_row, bare_row] \<rparr>"

definition no_genre_table :: table where
  "no_genre_table =
     load_data example_parse \<lparr> raw_columns = example_columns, raw_rows = [no_genre_row] \<rparr>"

definition example_state :: filter_state where
  "example_state =
     \<lparr> year_range = (2021, 2021), type_sel = [''Movie''], country_sel = [], genre_sel = [],
       rating_sel = [], query = [] \<rparr>"

definition japan_state :: filter_state where
  "japan_state = example_state\<lparr>country_sel := [''Japan'']\<rparr>"

definition dot_state :: filter_state where
  "dot_state = example_state\<lparr>query := '' . ''\<rparr>"

section \<open>Facts about the text primitives\<close>

lemma split_acc_nonempty: "split_acc acc s \<noteq> []"
  by (induction s arbitrary: acc) auto

lemma split_comma_nonempty: "split_comma s \<noteq> []"
  by (simp add: split_comma_def split_acc_nonempty)

lemma split_comma_empty: "split_comma [] = [[]]"
  by (simp add: split_comma_def)

lemma strip_empty: "strip [] = []"
  by (simp add: strip_def)

text \<open>Splitting loses nothing, and no piece holds a comma.\<close>

lemma join_split_acc: "join_comma (split_acc acc s) = rev acc @ s"
proof (induction s arbitrary: acc)
  case Nil
  then show ?case by simp
next
  case (Cons c cs)
  show ?case
  proof (cases "c = CHR '',''")
    case True
    obtain p ps where "split_acc [] cs = p # ps"
      using split_acc_nonempty[of "[]" cs] by (cases "split_acc [] cs") auto
    then show ?thesis using True Cons.IH[of "[]"] by simp
  next
    case False
    then show ?thesis using Cons.IH[of "c # acc"] by simp
  qed
qed

lemma join_split_comma: "join_comma (split_comma s) = s"
  by (simp add: split_comma_def join_split_acc)

lemma split_acc_no_comma:
  "CHR '','' \<notin> set acc \<Longrightarrow> \<forall>p\<in>set (split_acc acc s). CHR '','' \<notin> set p"
proof (induction s arbitrary: acc)
  case Nil
  then show ?case by simp
next
  case (Cons c cs)
  show ?case
  proof (cases "c = CHR '',''")
    case True
    then show ?thesis using Cons.IH[of "[]"] Cons.prems by simp
  next
    case False
    then show ?thesis using Cons.IH[of "c # acc"] Cons.prems by simp
  qed
qed

lemma split_comma_no_comma: "p \<in> set (split_comma s) \<Longrightarrow> CHR '','' \<notin> set p"
  using split_acc_no_comma[of "[]" s] by (simp add: split_comma_def)

text \<open>A text strips to nothing exactly when it is made of whitespace.\<close>

lemma dropWhile_all: "(\<forall>x\<in>set (dropWhile P xs). P x) \<longleftrightarrow> (\<forall>x\<in>set xs. P x)"
proof
  assume a: "\<forall>x\<in>set (dropWhile P xs). P x"
  have "dropWhile P xs = []"
  proof (rule ccontr)
    assume ne: "dropWhile P xs \<noteq> []"
    then have "\<not> P (hd (dropWhile P xs))" by (rule hd_dropWhile)
    moreover have "hd (dropWhile P xs) \<in> set (dropWhile P xs)" using ne by simp
    ultimately show False using a by blast
  qed
  then show "\<forall>x\<in>set xs. P x" by simp
next
  assume "\<forall>x\<in>set xs. P x"
  then show "\<forall>x\<in>set (dropWhile P xs). P x" by (meson set_dropWhileD)
qed

lemma strip_blank_iff: "strip s = [] \<longleftrightarrow> list_all is_space s"
  by (simp add: strip_def dropWhile_all list_all_iff)

text \<open>Lower-casing and stripping commute on ASCII text.\<close>

lemma is_space_lower_char: "is_space (lower_char c) = is_space c"
  by (auto simp: lower_char_def is_space_def split: option.splits if_splits)

lemma dropWhile_space_lower: "dropWhile is_space (lower s) = lower (dropWhile is_space s)"
  by (induction s) (simp_all add: lower_def is_space_lower_char)

lemma strip_lower: "strip (lower s) = lower (strip s)"
proof -
  have "rev (lower t) = lower (rev t)" for t by (simp add: lower_def rev_map)
  then show ?thesis by (simp add: strip_def dropWhile_space_lower)
qed

text \<open>Floats: whole numbers below \<open>2 ^ 53\<close> are exact; the first one above is not.\<close>

lemma to_float_exact: "n < 2 ^ 53 \<Longrightarrow> to_float n = Finite n"
  unfolding to_float_def by (rule if_P)

lemma bit_length_first_inexact: "bit_length 9007199254740993 = 54"
  by (simp add: bit_length.simps)

lemma to_float_first_inexact: "to_float 9007199254740993 = Finite 9007199254740992"
proof -
  have "\<not> (9007199254740993::nat) < 2 ^ 53" by simp
  then have "to_float 9007199254740993 =
     (let u = 2 ^ (bit_length 9007199254740993 - 53);
          q = 9007199254740993 div u;
          r = 9007199254740993 mod u;
          m = (if 2 * r < u \<or> (2 * r = u \<and> even q) then q else q + 1)
      in if 2 ^ 1024 \<le> m * u then Infinity else Finite (m * u))"
    unfolding to_float_def by (rule if_not_P)
  also have "\<dots> = Finite 9007199254740992"
    unfolding bit_length_first_inexact Let_def by simp
  finally show ?thesis .
qed

lemma map_filter_mem:
  "y \<in> set (List.map_filter f xs) \<longleftrightarrow> (\<exists>x\<in>set xs. f x = Some y)"
  by (induction xs) (auto split: option.splits)

section \<open>The loader on the example rows\<close>

lemmas text_defs = strip_def is_space_def split_comma_def lower_def lower_char_def
  is_digit_def digit_val_def digits_value_def

lemmas loader_defs = load_row_def Let_def to_datetime_def nat_strings_def astype_str_def
  df_get_def fillna_def fill_text_def country_list_of_def genre_list_of_def str_extract_def
  match_number_then_def astype_float_def to_float_exact

lemma scenario_loaded:
  "load_row example_parse example_columns scenario_row =
     \<lparr> type = Some ''Movie'', title = Some ''Kingdom'', director = Some ''Unknown'',
       cast = Some ''Unknown'', country = Some ''United States, France'',
       date_added = Some (Timestamp 2021 9 9), release_year = Some 2020, rating = Some ''PG'',
       duration = Some ''90 min'', listed_in = Some ''Comedies'', year_added = Some 2021,
       month_added = Some 9, country_list = [''United States'', ''France''],
       genre_list = [''Comedies''], movie_minutes = Some (Finite 90), seasons = None \<rparr>"
  by (simp add: loader_defs text_defs example_columns_def example_parse_def scenario_row_def)

lemma bare_loaded:
  "load_row example_parse example_columns bare_row =
     \<lparr> type = Some ''Movie'', title = Some ''Alpha'', director = Some ''Unknown'',
       cast = Some ''Unknown'', country = Some ''Unknown'',
       date_added = None, release_year = Some 2021, rating = Some ''Unknown'',
       duration = Some '''', listed_in = Some '''', year_added = None,
       month_added = None, country_list = [''Unknown''],
       genre_list = [''''], movie_minutes = None, seasons = None \<rparr>"
  by (simp add: loader_defs text_defs example_columns_def example_parse_def bare_row_def)

lemma no_genre_loaded:
  "load_row example_parse example_columns no_genre_row =
     \<lparr> type = Some ''Movie'', title = Some ''Beta'', director = Some ''Unknown'',
       cast = Some ''Unknown'', country = Some ''Unknown'',
       date_added = Some (Timestamp 2021 9 9), release_year = Some 2021,
       rating = Some ''Unknown'', duration = Some ''1 Season'', listed_in = Some '''',
       year_added = Some 2021, month_added = Some 9, country_list = [''Unknown''],
       genre_list = [''''], movie_minutes = None, seasons = Some (Finite 1) \<rparr>"
  by (simp add: loader_defs text_defs example_columns_def example_parse_def no_genre_row_def)

section \<open>Country and genre lists\<close>

lemma load_row_country_list:
  "country_list (load_row parse cols raw) =
     country_list_of (fillna ''Unknown'' (df_get cols ''country'' (raw_country raw) ''Unknown''))"
  by (simp add: load_row_def Let_def)

lemma load_row_genre_list:
  "genre_list (load_row parse cols raw) =
     genre_list_of (fillna '''' (df_get cols ''listed_in'' (raw_listed_in raw) ''''))"
  by (simp add: load_row_def Let_def)

lemma unknown_split: "map strip (split_comma ''Unknown'') = [''Unknown'']"
  by (simp add: split_comma_def strip_def is_space_def)

text \<open>
  Claim C6.  For every input row the loader's \<open>country_list\<close> is the sequence of the
  stripped pieces of the comma-split country text, in order, and it is \<open>[Unknown]\<close> when
  the country is absent (the cell is missing or the file has no such column); so the
  list is never empty.  Its elements are texts, so none of them is null.
\<close>

theorem country_list_split:
  "(''country'' \<in> set cols \<and> raw_country raw = Some s \<longrightarrow>
      country_list (load_row parse cols raw) = map strip (split_comma s))
   \<and> (''country'' \<notin> set cols \<or> raw_country raw = None \<longrightarrow>
      country_list (load_row parse cols raw) = [''Unknown''])
   \<and> country_list (load_row parse cols raw) \<noteq> []"
proof (intro conjI impI)
  assume "''country'' \<in> set cols \<and> raw_country raw = Some s"
  then show "country_list (load_row parse cols raw) = map strip (split_comma s)"
    by (simp add: load_row_country_list df_get_def fillna_def country_list_of_def)
next
  assume "''country'' \<notin> set cols \<or> raw_country raw = None"
  then show "country_list (load_row parse cols raw) = [''Unknown'']"
    by (auto simp: load_row_country_list df_get_def fillna_def country_list_of_def unknown_split)
next
  show "country_list (load_row parse cols raw) \<noteq> []"
    by (simp add: load_row_country_list df_get_def fillna_def country_list_of_def
        split_comma_nonempty split: option.splits)
qed

theorem country_list_split_witness:
  "''country'' \<in> set example_columns
   \<and> raw_country scenario_row = Some ''United States, France''
   \<and> country_list (load_row example_parse example_columns scenario_row)
       = [''United States'', ''France'']"
proof -
  have h: "''country'' \<in> set example_columns
           \<and> raw_country scenario_row = Some ''United States, France''"
    by (simp add: example_columns_def scenario_row_def)
  have "country_list (load_row example_parse example_columns scenario_row)
          = map strip (split_comma ''United States, France'')"
    using country_list_split[of example_columns scenario_row "''United States, France''" example_parse] h
    by blast
  then show ?thesis using h by (simp add: split_comma_def strip_def is_space_def)
qed

lemma genre_list_missing:
  "''listed_in'' \<notin> set cols \<or> raw_listed_in raw = None \<Longrightarrow>
   genre_list (load_row parse cols raw) = ['''']"
  by (auto simp: load_row_genre_list df_get_def fillna_def genre_list_of_def split_comma_empty
      strip_empty)

text \<open>
  Claim C2.  The claim: a row whose genre text is absent gets the empty \<open>genre_list\<close>.
  The loader fills the absent text with the empty text before it splits, and the split
  of the empty text is one empty piece; the branch of the lambda that gives the empty
  list is never reached.  At the row \<open>bare_row\<close>, whose genre text is absent, the loader
  gives the singleton of the empty text.
\<close>

theorem genre_list_absent_text:
  "raw_listed_in bare_row = None
   \<and> genre_list (load_row example_parse example_columns bare_row) = ['''']
   \<and> genre_list (load_row example_parse example_columns bare_row) \<noteq> []"
  by (simp add: bare_loaded) (simp add: bare_row_def)

section \<open>Year and month added\<close>

lemma load_row_date_added:
  "date_added (load_row parse cols raw) =
     (if ''date_added'' \<in> set cols
      then to_datetime parse (strip (astype_str (raw_date_added raw))) else None)"
  by (simp add: load_row_def Let_def)

lemma load_row_year_added:
  "year_added (load_row parse cols raw) = map_option ts_year (date_added (load_row parse cols raw))"
  by (simp add: load_row_def Let_def)

lemma load_row_month_added:
  "month_added (load_row parse cols raw) = map_option ts_month (date_added (load_row parse cols raw))"
  by (simp add: load_row_def Let_def)

lemma strip_nan: "strip ''nan'' = ''nan''"
  by (simp add: strip_def is_space_def)

lemma to_datetime_nan: "to_datetime parse ''nan'' = None"
  by (simp add: to_datetime_def nat_strings_def)

lemma date_added_absent_iff:
  "date_added (load_row parse cols raw) = None \<longleftrightarrow>
     (''date_added'' \<notin> set cols \<or> raw_date_added raw = None
       \<or> (\<exists>s. raw_date_added raw = Some s \<and> to_datetime parse (strip s) = None))"
  by (cases "raw_date_added raw")
     (simp_all add: load_row_date_added astype_str_def strip_nan to_datetime_nan)

text \<open>
  Claim C7.  In every loaded row \<open>year_added\<close> and \<open>month_added\<close> are both present or both
  absent.  They are absent exactly when the date added is absent (no such column, or a
  missing cell) or its stripped text does not parse; when present they are the year and
  the month of the one parsed date.
\<close>

theorem year_month_together:
  "(year_added (load_row parse cols raw) = None \<longleftrightarrow> month_added (load_row parse cols raw) = None)
   \<and> (year_added (load_row parse cols raw) = None \<longleftrightarrow>
        (''date_added'' \<notin> set cols \<or> raw_date_added raw = None
          \<or> (\<exists>s. raw_date_added raw = Some s \<and> to_datetime parse (strip s) = None)))
   \<and> (\<forall>d. date_added (load_row parse cols raw) = Some d \<longrightarrow>
          year_added (load_row parse cols raw) = Some (ts_year d)
        \<and> month_added (load_row parse cols raw) = Some (ts_month d))"
  using date_added_absent_iff[of parse cols raw]
  by (simp add: load_row_year_added load_row_month_added)

theorem year_month_together_witness:
  "date_added (load_row example_parse example_columns scenario_row) = Some (Timestamp 2021 9 9)
   \<and> year_added (load_row example_parse example_columns scenario_row) = Some 2021
   \<and> month_added (load_row example_parse example_columns scenario_row) = Some 9"
proof -
  have h: "date_added (load_row example_parse example_columns scenario_row)
             = Some (Timestamp 2021 9 9)"
    by (simp add: scenario_loaded)
  have "year_added (load_row example_parse example_columns scenario_row)
           = Some (ts_year (Timestamp 2021 9 9))
        \<and> month_added (load_row example_parse example_columns scenario_row)
           = Some (ts_month (Timestamp 2021 9 9))"
    using year_month_together[of example_parse example_columns scenario_row] h by blast
  then show ?thesis using h by simp
qed

section \<open>Duration\<close>

lemma load_row_duration:
  "duration (load_row parse cols raw) = fillna '''' (df_get cols ''duration'' (raw_duration raw) '''')"
  by (simp add: load_row_def Let_def)

lemma load_row_movie_minutes:
  "movie_minutes (load_row parse cols raw) =
     map_option astype_float (str_extract ''min'' (duration (load_row parse cols raw)))"
  by (simp add: load_row_def Let_def)

lemma load_row_seasons:
  "seasons (load_row parse cols raw) =
     map_option astype_float (str_extract ''Season'' (duration (load_row parse cols raw)))"
  by (simp add: load_row_def Let_def)

lemma digits_span:
  assumes "list_all is_digit ds"
  shows "takeWhile is_digit (ds @ CHR '' '' # r) = ds"
    and "dropWhile is_digit (ds @ CHR '' '' # r) = CHR '' '' # r"
  using assms by (simp_all add: list_all_iff takeWhile_append2 dropWhile_append2 is_digit_def)

lemma match_at_number:
  assumes "ds \<noteq> []" "list_all is_digit ds" "\<not> is_space c"
  shows "match_number_then lit (ds @ CHR '' '' # c # r)
           = (if prefix lit (c # r) then Some ds else None)"
  using assms by (simp add: match_number_then_def digits_span is_space_def)

lemma search_hit:
  assumes "ds \<noteq> []" "list_all is_digit ds" "\<not> is_space c" "prefix lit (c # r)"
  shows "search_number_then lit (ds @ CHR '' '' # c # r) = Some ds"
proof -
  obtain d ds' where ds: "ds = d # ds'" using assms(1) by (cases ds) auto
  have "match_number_then lit (ds @ CHR '' '' # c # r) = Some ds"
    using match_at_number[OF assms(1,2,3)] assms(4) by simp
  then show ?thesis unfolding ds by simp
qed

lemma search_miss:
  assumes "list_all is_digit ds" "\<not> is_space c" "\<not> prefix lit (c # r)"
  shows "search_number_then lit (ds @ CHR '' '' # c # r)
           = search_number_then lit (CHR '' '' # c # r)"
  using assms
proof (induction ds)
  case Nil
  then show ?case by simp
next
  case (Cons d ds)
  have "match_number_then lit ((d # ds) @ CHR '' '' # c # r) = None"
    using match_at_number[of "d # ds" c lit r] Cons.prems by simp
  then show ?case using Cons by simp
qed

lemma not_space_m: "\<not> is_space (CHR ''m'')"
  by (simp add: is_space_def)

lemma not_space_S: "\<not> is_space (CHR ''S'')"
  by (simp add: is_space_def)

lemma no_number_min: "search_number_then lit '' min'' = None"
  by (simp add: match_number_then_def is_digit_def)

lemma no_number_Season: "search_number_then lit '' Season'' = None"
  by (simp add: match_number_then_def is_digit_def)

lemma no_number_Seasons: "search_number_then lit '' Seasons'' = None"
  by (simp add: match_number_then_def is_digit_def)

lemma extract_min:
  assumes "ds \<noteq> []" "list_all is_digit ds"
  shows "search_number_then ''min'' (ds @ '' min'') = Some ds"
    and "search_number_then ''Season'' (ds @ '' min'') = None"
proof -
  show "search_number_then ''min'' (ds @ '' min'') = Some ds"
    using search_hit[OF assms not_space_m, of "''min''" "''in''"] by simp
  show "search_number_then ''Season'' (ds @ '' min'') = None"
    using search_miss[OF assms(2) not_space_m, of "''Season''" "''in''"]
      no_number_min[of "''Season''"]
    by simp
qed

lemma extract_Season:
  assumes "ds \<noteq> []" "list_all is_digit ds"
  shows "search_number_then ''Season'' (ds @ '' Season'') = Some ds"
    and "search_number_then ''min'' (ds @ '' Season'') = None"
    and "search_number_then ''Season'' (ds @ '' Seasons'') = Some ds"
    and "search_number_then ''min'' (ds @ '' Seasons'') = None"
proof -
  show "search_number_then ''Season'' (ds @ '' Season'') = Some ds"
    using search_hit[OF assms not_space_S, of "''Season''" "''eason''"] by simp
  show "search_number_then ''min'' (ds @ '' Season'') = None"
    using search_miss[OF assms(2) not_space_S, of "''min''" "''eason''"]
      no_number_Season[of "''min''"]
    by simp
  show "search_number_then ''Season'' (ds @ '' Seasons'') = Some ds"
    using search_hit[OF assms not_space_S, of "''Season''" "''easons''"] by simp
  show "search_number_then ''min'' (ds @ '' Seasons'') = None"
    using search_miss[OF assms(2) not_space_S, of "''min''" "''easons''"]
      no_number_Seasons[of "''min''"]
    by simp
qed

text \<open>
  Claim C8, as amended.  For a row whose duration text is a run of digits, one space and
  \<open>min\<close>, the loader populates \<open>movie_minutes\<close> and leaves \<open>seasons\<close> absent; for a run
  of digits, one space and \<open>Season\<close> or \<open>Seasons\<close> it populates \<open>seasons\<close> and leaves
  \<open>movie_minutes\<close> absent.  The populated value is the 64-bit float nearest to the
  number the digits denote, and it equals that number whenever the number is below
  \<open>2 ^ 53\<close>.  This holds whatever the type of the row is, so also for a Movie row in the
  first case and a TV Show row in the second.  For a row with no duration text both are
  absent.
\<close>

theorem duration_one_populated:
  assumes "ds \<noteq> []" and "list_all is_digit ds" and "''duration'' \<in> set cols"
  shows "(raw_duration raw = Some (ds @ '' min'') \<longrightarrow>
            movie_minutes (load_row parse cols raw) = Some (to_float (digits_value ds))
          \<and> seasons (load_row parse cols raw) = None)
       \<and> (raw_duration raw = Some (ds @ '' Season'')
            \<or> raw_duration raw = Some (ds @ '' Seasons'') \<longrightarrow>
            seasons (load_row parse cols raw) = Some (to_float (digits_value ds))
          \<and> movie_minutes (load_row parse cols raw) = None)
       \<and> (raw_duration raw = None \<longrightarrow>
            movie_minutes (load_row parse cols raw) = None
          \<and> seasons (load_row parse cols raw) = None)
       \<and> (digits_value ds < 2 ^ 53 \<longrightarrow> to_float (digits_value ds) = Finite (digits_value ds))"
proof (intro conjI impI)
  assume "raw_duration raw = Some (ds @ '' min'')"
  then have d: "duration (load_row parse cols raw) = Some (ds @ '' min'')"
    using assms(3) by (simp add: load_row_duration df_get_def fillna_def)
  show "movie_minutes (load_row parse cols raw) = Some (to_float (digits_value ds))"
    by (simp add: load_row_movie_minutes d str_extract_def astype_float_def
        extract_min[OF assms(1,2)])
  show "seasons (load_row parse cols raw) = None"
    by (simp add: load_row_seasons d str_extract_def extract_min[OF assms(1,2)])
next
  assume "raw_duration raw = Some (ds @ '' Season'') \<or> raw_duration raw = Some (ds @ '' Seasons'')"
  then have d: "duration (load_row parse cols raw) = Some (ds @ '' Season'')
              \<or> duration (load_row parse cols raw) = Some (ds @ '' Seasons'')"
    using assms(3) by (auto simp: load_row_duration df_get_def fillna_def)
  show "seasons (load_row parse cols raw) = Some (to_float (digits_value ds))"
    using d
    by (auto simp: load_row_seasons str_extract_def astype_float_def extract_Season[OF assms(1,2)])
  show "movie_minutes (load_row parse cols raw) = None"
    using d by (auto simp: load_row_movie_minutes str_extract_def extract_Season[OF assms(1,2)])
next
  assume "raw_duration raw = None"
  then have d: "duration (load_row parse cols raw) = Some []"
    using assms(3) by (simp add: load_row_duration df_get_def fillna_def)
  show "movie_minutes (load_row parse cols raw) = None"
    by (simp add: load_row_movie_minutes d str_extract_def)
  show "seasons (load_row parse cols raw) = None"
    by (simp add: load_row_seasons d str_extract_def)
next
  assume "digits_value ds < 2 ^ 53"
  then show "to_float (digits_value ds) = Finite (digits_value ds)"
    by (rule to_float_exact)
qed

theorem duration_one_populated_witness:
  "''90'' \<noteq> [] \<and> list_all is_digit ''90'' \<and> ''duration'' \<in> set example_columns
   \<and> raw_type scenario_row = Some ''Movie''
   \<and> raw_duration scenario_row = Some (''90'' @ '' min'')
   \<and> digits_value ''90'' = 90
   \<and> movie_minutes (load_row example_parse example_columns scenario_row) = Some (Finite 90)
   \<and> seasons (load_row example_parse example_columns scenario_row) = None"
proof -
  have h1: "''90'' \<noteq> []" by simp
  have h2: "list_all is_digit ''90''" by (simp add: is_digit_def)
  have h3: "''duration'' \<in> set example_columns" by (simp add: example_columns_def)
  have h4: "raw_duration scenario_row = Some (''90'' @ '' min'')" by (simp add: scenario_row_def)
  have v: "digits_value ''90'' = 90" by (simp add: digits_value_def digit_val_def)
  have h5: "digits_value ''90'' < 2 ^ 53" unfolding v by simp
  have "movie_minutes (load_row example_parse example_columns scenario_row)
          = Some (to_float (digits_value ''90''))
        \<and> seasons (load_row example_parse example_columns scenario_row) = None
        \<and> to_float (digits_value ''90'') = Finite (digits_value ''90'')"
    using duration_one_populated[OF h1 h2 h3, of scenario_row example_parse] h4 h5 by blast
  then show ?thesis
    using h1 h2 h3 h4 v by (simp add: scenario_row_def)
qed

text \<open>
  The claim as stated fails for a movie of 9007199254740993 minutes: the duration text
  is well formed, and the value stored is the float 9007199254740992.
\<close>

theorem duration_rounded_counterexample:
  "raw_type long_movie_row = Some ''Movie''
   \<and> raw_duration long_movie_row = Some (''9007199254740993'' @ '' min'')
   \<and> list_all is_digit ''9007199254740993''
   \<and> digits_value ''9007199254740993'' = 9007199254740993
   \<and> movie_minutes (load_row example_parse example_columns long_movie_row)
       = Some (Finite 9007199254740992)
   \<and> movie_minutes (load_row example_parse example_columns long_movie_row)
       \<noteq> Some (Finite (digits_value ''9007199254740993''))"
proof -
  have r: "raw_type long_movie_row = Some ''Movie''
     \<and> raw_duration long_movie_row = Some (''9007199254740993'' @ '' min'')"
    by (simp add: long_movie_row_def)
  have d: "list_all is_digit ''9007199254740993''" by (simp add: is_digit_def)
  have v: "digits_value ''9007199254740993'' = 9007199254740993"
    by (simp add: digits_value_def digit_val_def)
  have c: "''duration'' \<in> set example_columns" by (simp add: example_columns_def)
  have e: "search_number_then ''min'' (''9007199254740993'' @ '' min'') = Some ''9007199254740993''"
    by (rule extract_min(1)[OF _ d]) simp
  have "duration (load_row example_parse example_columns long_movie_row)
          = Some (''9007199254740993'' @ '' min'')"
    using r c by (simp add: load_row_duration df_get_def fillna_def)
  then have m: "movie_minutes (load_row example_parse example_columns long_movie_row)
          = Some (Finite 9007199254740992)"
    by (simp only: load_row_movie_minutes str_extract_def option.case e option.map
        astype_float_def v to_float_first_inexact)
  show ?thesis using r d v m by simp
qed

section \<open>The filter application as one predicate\<close>

lemma bind_result_Inr:
  "bind_result x k = Inr y \<longleftrightarrow> (\<exists>v. x = Inr v \<and> k v = Inr y)"
  by (cases x) (simp_all add: bind_result_def)

lemma need_Inr: "need df name k = Inr y \<longleftrightarrow> name \<in> set (columns df) \<and> k = Inr y"
  by (simp add: need_def)

lemma filter_type_Inr:
  "filter_type st f = Inr g \<Longrightarrow>
   rows g = filter (\<lambda>r. type_sel st = [] \<or> isin (type r) (type_sel st)) (rows f)
   \<and> columns g = columns f"
  by (auto simp: filter_type_def need_def keep_rows_def split: if_splits)

lemma filter_time_Inr:
  "filter_time (use_year_added df) st f = Inr g \<Longrightarrow>
   rows g = filter (\<lambda>r. between (time_value df r) (year_range st)) (rows f)
   \<and> columns g = columns f"
  by (auto simp: filter_time_def need_def keep_rows_def time_value_def split: if_splits)

lemma filter_country_Inr:
  "filter_country st f = Inr g \<Longrightarrow>
   rows g = filter (\<lambda>r. country_sel st = [] \<or> any_in (country_sel st) (country_list r)) (rows f)
   \<and> (columns g = columns f \<or> rows g = [])"
  by (auto simp: filter_country_def need_def keep_applied_def keep_rows_def split: if_splits)

lemma filter_genre_Inr:
  "filter_genre st f = Inr g \<Longrightarrow>
   rows g = filter (\<lambda>r. genre_sel st = [] \<or> any_in (genre_sel st) (genre_list r)) (rows f)
   \<and> (columns g = columns f \<or> rows g = [])"
  by (auto simp: filter_genre_def need_def keep_applied_def keep_rows_def split: if_splits)

lemma filter_rating_Inr:
  "filter_rating st f = Inr g \<Longrightarrow> columns f = cols \<or> rows f = [] \<Longrightarrow>
   rows g = filter (\<lambda>r. rating_sel st = [] \<or> ''rating'' \<notin> set cols
                        \<or> isin (rating r) (rating_sel st)) (rows f)"
  by (auto simp: filter_rating_def keep_rows_def split: if_splits)

lemma filter_query_Inr:
  assumes "filter_query engine st f = Inr g"
  shows "rows g = filter (passes_query engine st) (rows f)"
proof (cases "strip (query st) = []")
  case True
  then have "passes_query engine st = (\<lambda>r. True)"
    by (simp add: passes_query_def fun_eq_iff)
  with assms True show ?thesis by (simp add: filter_query_def)
next
  case False
  with assms obtain m where m: "re_compile engine (strip (lower (query st))) = Inr m"
    and g: "g = keep_rows f (query_mask m)"
    by (auto simp: filter_query_def need_def bind_result_def Let_def split: if_splits sum.splits)
  from False m have "passes_query engine st = query_mask m"
    by (simp add: passes_query_def fun_eq_iff)
  with g show ?thesis by (simp add: keep_rows_def)
qed

text \<open>When the filter application returns, it returns the rows that meet every criterion.\<close>

lemma apply_filters_selected:
  assumes "apply_filters engine df st = Inr f"
  shows "f = filter (selected engine df st) (rows df)"
proof -
  from assms obtain f1 f2 f3 f4 f5 f6 where
    s1: "filter_type st df = Inr f1" and
    s2: "filter_time (use_year_added df) st f1 = Inr f2" and
    s3: "filter_country st f2 = Inr f3" and
    s4: "filter_genre st f3 = Inr f4" and
    s5: "filter_rating st f4 = Inr f5" and
    s6: "filter_query engine st f5 = Inr f6" and
    r: "f = rows f6"
    unfolding apply_filters_def need_Inr bind_result_Inr by auto
  note t1 = filter_type_Inr[OF s1] and t2 = filter_time_Inr[OF s2]
    and t3 = filter_country_Inr[OF s3] and t4 = filter_genre_Inr[OF s4]
  have c2: "columns f2 = columns df" using t1 t2 by simp
  have c3: "columns f3 = columns df \<or> rows f3 = []" using t3 c2 by auto
  have c4: "columns f4 = columns df \<or> rows f4 = []"
  proof (cases "rows f3 = []")
    case True
    then have "rows f4 = []" using t4 by simp
    then show ?thesis by simp
  next
    case False
    then have "columns f3 = columns df" using c3 by simp
    then show ?thesis using t4 by auto
  qed
  note t5 = filter_rating_Inr[OF s5 c4]
  have r1: "rows f1 = filter (\<lambda>r. type_sel st = [] \<or> isin (type r) (type_sel st)) (rows df)"
    using t1 by simp
  have r2: "rows f2 = filter (\<lambda>r. between (time_value df r) (year_range st)) (rows f1)"
    using t2 by simp
  have r3: "rows f3 = filter (\<lambda>r. country_sel st = []
                                  \<or> any_in (country_sel st) (country_list r)) (rows f2)"
    using t3 by simp
  have r4: "rows f4 = filter (\<lambda>r. genre_sel st = []
                                  \<or> any_in (genre_sel st) (genre_list r)) (rows f3)"
    using t4 by simp
  show ?thesis
    unfolding r filter_query_Inr[OF s6] t5 r4 r3 r2 r1 filter_filter
    by (rule filter_cong) (auto simp: selected_def passes_sets_def)
qed

text \<open>It returns under the conditions of \<open>columns_ok\<close>.\<close>

lemma filter_type_ok:
  "type_sel st \<noteq> [] \<longrightarrow> ''type'' \<in> set (columns f) \<Longrightarrow>
   \<exists>g. filter_type st f = Inr g \<and> columns g = columns f"
  by (auto simp: filter_type_def need_def keep_rows_def)

lemma filter_time_ok:
  "use \<longrightarrow> ''year_added'' \<in> set (columns f) \<Longrightarrow>
   \<not> use \<longrightarrow> ''release_year'' \<in> set (columns f) \<Longrightarrow>
   \<exists>g. filter_time use st f = Inr g \<and> columns g = columns f"
  by (cases use) (simp_all add: filter_time_def need_def keep_rows_def)

lemma filter_country_ok:
  "country_sel st \<noteq> [] \<longrightarrow> ''country_list'' \<in> set (columns f) \<Longrightarrow>
   \<exists>g. filter_country st f = Inr g \<and> (country_sel st = [] \<longrightarrow> g = f)"
  by (auto simp: filter_country_def need_def)

lemma filter_genre_ok:
  "genre_sel st \<noteq> [] \<longrightarrow> ''genre_list'' \<in> set (columns f) \<Longrightarrow>
   \<exists>g. filter_genre st f = Inr g \<and> (genre_sel st = [] \<longrightarrow> g = f)"
  by (auto simp: filter_genre_def need_def)

lemma filter_rating_ok: "\<exists>g. filter_rating st f = Inr g \<and> columns g = columns f"
  by (auto simp: filter_rating_def keep_rows_def)

lemma filter_query_ok:
  "strip (query st) \<noteq> [] \<longrightarrow>
     ''title'' \<in> set (columns f) \<and> ''cast'' \<in> set (columns f) \<and> ''director'' \<in> set (columns f)
     \<and> \<not> isl (re_compile engine (strip (lower (query st)))) \<Longrightarrow>
   \<exists>g. filter_query engine st f = Inr g"
  by (cases "re_compile engine (strip (lower (query st)))")
     (auto simp: filter_query_def need_def bind_result_def Let_def)

lemma apply_filters_succeeds:
  assumes "columns_ok engine df st"
  shows "apply_filters engine df st = Inr (filter (selected engine df st) (rows df))"
proof -
  from assms have ya: "''year_added'' \<in> set (columns df)"
    and ty: "type_sel st \<noteq> [] \<longrightarrow> ''type'' \<in> set (columns df)"
    and ry: "\<not> use_year_added df \<longrightarrow> ''release_year'' \<in> set (columns df)"
    and cl: "country_sel st \<noteq> [] \<longrightarrow> ''country_list'' \<in> set (columns df)"
    and gl: "genre_sel st \<noteq> [] \<longrightarrow> ''genre_list'' \<in> set (columns df)"
    and one: "country_sel st = [] \<or> genre_sel st = []"
    and qu: "strip (query st) \<noteq> [] \<longrightarrow>
            country_sel st = [] \<and> genre_sel st = []
            \<and> ''title'' \<in> set (columns df) \<and> ''cast'' \<in> set (columns df)
            \<and> ''director'' \<in> set (columns df)
            \<and> \<not> isl (re_compile engine (strip (lower (query st))))"
    unfolding columns_ok_def by blast+
  obtain f1 where s1: "filter_type st df = Inr f1" and c1: "columns f1 = columns df"
    using filter_type_ok[OF ty] by blast
  have "use_year_added df \<longrightarrow> ''year_added'' \<in> set (columns f1)"
    and "\<not> use_year_added df \<longrightarrow> ''release_year'' \<in> set (columns f1)"
    using ya ry c1 by simp_all
  then obtain f2 where s2: "filter_time (use_year_added df) st f1 = Inr f2"
    and c2: "columns f2 = columns df"
    using filter_time_ok[of "use_year_added df" f1 st] c1 by auto
  have "country_sel st \<noteq> [] \<longrightarrow> ''country_list'' \<in> set (columns f2)"
    using cl c2 by simp
  then obtain f3 where s3: "filter_country st f2 = Inr f3"
    and e3: "country_sel st = [] \<longrightarrow> f3 = f2"
    using filter_country_ok[of st f2] by blast
  have g4: "genre_sel st \<noteq> [] \<longrightarrow> ''genre_list'' \<in> set (columns f3)"
    using gl one e3 c2 by auto
  obtain f4 where s4: "filter_genre st f3 = Inr f4" and e4: "genre_sel st = [] \<longrightarrow> f4 = f3"
    using filter_genre_ok[OF g4] by blast
  obtain f5 where s5: "filter_rating st f4 = Inr f5" and c5: "columns f5 = columns f4"
    using filter_rating_ok[of st f4] by blast
  have q6: "strip (query st) \<noteq> [] \<longrightarrow>
     ''title'' \<in> set (columns f5) \<and> ''cast'' \<in> set (columns f5)
     \<and> ''director'' \<in> set (columns f5)
     \<and> \<not> isl (re_compile engine (strip (lower (query st))))"
  proof
    assume n: "strip (query st) \<noteq> []"
    with qu e3 e4 have "f4 = f2" by simp
    then have "columns f5 = columns df" using c5 c2 by simp
    with qu n show "''title'' \<in> set (columns f5) \<and> ''cast'' \<in> set (columns f5)
     \<and> ''director'' \<in> set (columns f5)
     \<and> \<not> isl (re_compile engine (strip (lower (query st))))"
      by simp
  qed
  obtain f6 where s6: "filter_query engine st f5 = Inr f6"
    using filter_query_ok[OF q6] by blast
  have a: "apply_filters engine df st = Inr (rows f6)"
    using ya s1 s2 s3 s4 s5 s6 by (simp add: apply_filters_def need_def bind_result_def)
  show ?thesis using a apply_filters_selected[OF a] by simp
qed

text \<open>
  A loaded table always has the derived columns, so on a loaded table the filter
  application raises only when a source column (type, release year, title, cast,
  director) is missing, when the pattern does not compile, or when a column is read from
  a frame that a country or genre filter has left without columns.
\<close>

lemma add_col_set: "set (add_col cols name) = insert name (set cols)"
  by (auto simp: add_col_def)

lemma loaded_columns:
  "set (columns (load_data parse t)) =
     set (raw_columns t) \<union>
     {''year_added'', ''month_added'', ''country'', ''listed_in'', ''country_list'',
      ''genre_list'', ''duration'', ''movie_minutes'', ''seasons''}"
  by (simp add: load_data_def add_col_set insert_commute)

lemma loaded_columns_ok:
  assumes "type_sel st \<noteq> [] \<longrightarrow> ''type'' \<in> set (raw_columns t)"
    and "''release_year'' \<in> set (raw_columns t)"
    and "strip (query st) = []"
    and "country_sel st = [] \<or> genre_sel st = []"
  shows "columns_ok engine (load_data parse t) st"
  using assms by (simp add: columns_ok_def loaded_columns)

lemma filter_length_mono:
  "(\<And>x. x \<in> set xs \<Longrightarrow> P x \<Longrightarrow> Q x) \<Longrightarrow> length (filter P xs) \<le> length (filter Q xs)"
  by (induction xs) auto

lemma use_year_added_iff: "use_year_added df \<longleftrightarrow> (\<exists>x\<in>set (rows df). year_added x \<noteq> None)"
  by (simp add: use_year_added_def list_ex_iff)

section \<open>The filter application on the example table\<close>

lemma example_table_rows:
  "rows example_table =
     [load_row example_parse example_columns scenario_row,
      load_row example_parse example_columns bare_row]"
  by (simp add: example_table_def load_data_def)

lemma example_table_columns:
  "columns example_table =
     [''type'', ''title'', ''director'', ''cast'', ''country'', ''date_added'',
      ''release_year'', ''rating'', ''duration'', ''listed_in'', ''year_added'',
      ''month_added'', ''country_list'', ''genre_list'', ''movie_minutes'', ''seasons'']"
  by (simp add: example_table_def load_data_def add_col_def example_columns_def)

lemmas example_defs = example_table_rows example_table_columns scenario_loaded bare_loaded
  example_state_def

lemmas filter_defs = apply_filters_def need_def bind_result_def filter_type_def filter_time_def
  filter_country_def filter_genre_def filter_rating_def filter_query_def use_year_added_def
  between_def isin_def any_in_def keep_rows_def keep_applied_def

lemma example_bounds: "year_bounds example_table = Inr (2021, 2021)"
  by (simp add: year_bounds_def need_def use_year_added_def example_defs)

lemma example_uses_year_added: "use_year_added example_table"
  by (simp add: use_year_added_def example_defs)

lemma example_filtered:
  "apply_filters no_engine example_table example_state =
     Inr [load_row example_parse example_columns scenario_row]"
  by (simp add: filter_defs example_defs text_defs)

lemma example_filtered_japan:
  "apply_filters no_engine example_table japan_state = Inr []"
  by (simp add: japan_state_def filter_defs example_defs text_defs)

lemma example_type_subset:
  "type_subset example_table example_state =
     [load_row example_parse example_columns scenario_row,
      load_row example_parse example_columns bare_row]"
  by (simp add: type_subset_def isin_def example_defs)

section \<open>The full year range\<close>

lemma present_in_bounds:
  assumes "year_bounds df = Inr rng" and "r \<in> set (rows df)" and "time_value df r = Some y"
  shows "fst rng \<le> y \<and> y \<le> snd rng"
proof (cases "use_year_added df")
  case True
  let ?ys = "List.map_filter year_added (rows df)"
  from assms(2,3) True have y: "y \<in> set ?ys"
    by (auto simp: map_filter_mem time_value_def)
  from assms(1) True have "rng = (Min (set ?ys), Max (set ?ys))"
    by (auto simp: year_bounds_def need_def Let_def split: if_splits)
  with y show ?thesis by simp
next
  case False
  let ?rs = "List.map_filter release_year (rows df)"
  from assms(2,3) False have y: "y \<in> set ?rs"
    by (auto simp: map_filter_mem time_value_def)
  then have ne: "?rs \<noteq> []" by auto
  from assms(1) False ne have "rng = (Min (set ?rs), Max (set ?rs))"
    by (auto simp: year_bounds_def need_def Let_def split: if_splits)
  with y show ?thesis by simp
qed

lemma year_bounds_columns:
  assumes "year_bounds df = Inr rng"
  shows "''year_added'' \<in> set (columns df)"
    and "\<not> use_year_added df \<Longrightarrow> ''release_year'' \<in> set (columns df)"
  using assms by (auto simp: year_bounds_def need_def split: if_splits)

text \<open>
  Claim C1, as amended.  For every table with a type column and every filter state in
  which the type set is the only non-empty selection (country, genre and rating sets
  empty, query empty or blank) and the year range is the full range of the active time
  base, the filter result is exactly the rows whose type is in the type set and whose
  active time-base value is present.  A row with an absent time-base value is excluded;
  no row is excluded for any other reason.
\<close>

theorem type_only_full_range:
  assumes "''type'' \<in> set (columns df)" and "type_sel st \<noteq> []"
    and "country_sel st = []" and "genre_sel st = []" and "rating_sel st = []"
    and "strip (query st) = []" and "year_bounds df = Inr (year_range st)"
  shows "apply_filters engine df st =
           Inr (filter (\<lambda>r. isin (type r) (type_sel st) \<and> time_value df r \<noteq> None) (rows df))"
proof -
  have ok: "columns_ok engine df st"
    using assms(1,3,4,6) year_bounds_columns[OF assms(7)] by (simp add: columns_ok_def)
  have "filter (selected engine df st) (rows df) =
        filter (\<lambda>r. isin (type r) (type_sel st) \<and> time_value df r \<noteq> None) (rows df)"
  proof (rule filter_cong[OF refl])
    fix r assume r: "r \<in> set (rows df)"
    have "between (time_value df r) (year_range st) \<longleftrightarrow> time_value df r \<noteq> None"
      using present_in_bounds[OF assms(7) r] by (cases "time_value df r") (simp_all add: between_def)
    then show "selected engine df st r \<longleftrightarrow> (isin (type r) (type_sel st) \<and> time_value df r \<noteq> None)"
      using assms(2,3,4,5,6) by (simp add: selected_def passes_sets_def passes_query_def)
  qed
  then show ?thesis using apply_filters_succeeds[OF ok] by simp
qed

theorem type_only_full_range_witness:
  "''type'' \<in> set (columns example_table) \<and> type_sel example_state \<noteq> []
   \<and> country_sel example_state = [] \<and> genre_sel example_state = []
   \<and> rating_sel example_state = [] \<and> strip (query example_state) = []
   \<and> year_bounds example_table = Inr (year_range example_state)
   \<and> apply_filters no_engine example_table example_state =
       Inr (filter (\<lambda>r. isin (type r) (type_sel example_state)
                        \<and> time_value example_table r \<noteq> None) (rows example_table))"
proof -
  have h1: "''type'' \<in> set (columns example_table)" by (simp add: example_table_columns)
  have h2: "type_sel example_state \<noteq> []" by (simp add: example_state_def)
  have h3: "country_sel example_state = []" by (simp add: example_state_def)
  have h4: "genre_sel example_state = []" by (simp add: example_state_def)
  have h5: "rating_sel example_state = []" by (simp add: example_state_def)
  have h6: "strip (query example_state) = []" by (simp add: example_state_def strip_def)
  have h7: "year_bounds example_table = Inr (year_range example_state)"
    by (simp add: example_bounds example_state_def)
  show ?thesis
    using type_only_full_range[OF h1 h2 h3 h4 h5 h6 h7, of no_engine] h1 h2 h3 h4 h5 h6 h7
    by simp
qed

text \<open>
  The claim as stated fails on the example table: both rows are movies and the year
  range is the full range, yet the row without a date is left out of the result.
\<close>

theorem type_only_counterexample:
  "type_sel example_state \<noteq> [] \<and> country_sel example_state = [] \<and> genre_sel example_state = []
   \<and> rating_sel example_state = [] \<and> query example_state = []
   \<and> year_bounds example_table = Inr (year_range example_state)
   \<and> apply_filters no_engine example_table example_state
       \<noteq> Inr (type_subset example_table example_state)"
  by (simp add: example_bounds example_filtered example_type_subset) (simp add: example_state_def)

section \<open>Monotonicity\<close>

lemma selected_weaken:
  assumes "adds_constraint st1 st2" "selected engine df st2 r"
  shows "selected engine df st1 r"
  using assms(1) unfolding adds_constraint_def
proof (elim disjE conjE)
  assume e: "st2 = st1\<lparr>type_sel := type_sel st2\<rparr>" and n: "type_sel st1 = []"
  have "selected engine df (st1\<lparr>type_sel := type_sel st2\<rparr>) r"
    using assms(2) by (simp only: e[symmetric])
  with n show ?thesis by (simp add: selected_def passes_sets_def passes_query_def)
next
  assume e: "st2 = st1\<lparr>country_sel := country_sel st2\<rparr>" and n: "country_sel st1 = []"
  have "selected engine df (st1\<lparr>country_sel := country_sel st2\<rparr>) r"
    using assms(2) by (simp only: e[symmetric])
  with n show ?thesis by (simp add: selected_def passes_sets_def passes_query_def)
next
  assume e: "st2 = st1\<lparr>genre_sel := genre_sel st2\<rparr>" and n: "genre_sel st1 = []"
  have "selected engine df (st1\<lparr>genre_sel := genre_sel st2\<rparr>) r"
    using assms(2) by (simp only: e[symmetric])
  with n show ?thesis by (simp add: selected_def passes_sets_def passes_query_def)
next
  assume e: "st2 = st1\<lparr>rating_sel := rating_sel st2\<rparr>" and n: "rating_sel st1 = []"
  have "selected engine df (st1\<lparr>rating_sel := rating_sel st2\<rparr>) r"
    using assms(2) by (simp only: e[symmetric])
  with n show ?thesis by (simp add: selected_def passes_sets_def passes_query_def)
next
  assume e: "st2 = st1\<lparr>year_range := year_range st2\<rparr>"
    and lo: "fst (year_range st1) \<le> fst (year_range st2)"
    and hi: "snd (year_range st2) \<le> snd (year_range st1)"
  have "selected engine df (st1\<lparr>year_range := year_range st2\<rparr>) r"
    using assms(2) by (simp only: e[symmetric])
  with lo hi show ?thesis
    by (auto simp: selected_def passes_sets_def passes_query_def between_def split: option.splits)
qed

text \<open>
  Claim C3.  For every table and every pair of filter states of which the second adds a
  constraint to the first (one empty selection set becomes non-empty, or the year range
  narrows, everything else unchanged), the second filter result has at most as many rows
  as the first.
\<close>

theorem filter_monotone:
  assumes "adds_constraint st1 st2"
    and "apply_filters engine df st1 = Inr f1"
    and "apply_filters engine df st2 = Inr f2"
  shows "length f2 \<le> length f1"
  unfolding apply_filters_selected[OF assms(2)] apply_filters_selected[OF assms(3)]
  by (rule filter_length_mono) (rule selected_weaken[OF assms(1)])

theorem filter_monotone_witness:
  "adds_constraint example_state japan_state
   \<and> apply_filters no_engine example_table example_state
       = Inr [load_row example_parse example_columns scenario_row]
   \<and> apply_filters no_engine example_table japan_state = Inr []
   \<and> length ([] :: row list) \<le> length [load_row example_parse example_columns scenario_row]"
proof -
  have h1: "adds_constraint example_state japan_state"
    by (simp add: adds_constraint_def japan_state_def example_state_def)
  show ?thesis
    using filter_monotone[OF h1 example_filtered example_filtered_japan] h1
      example_filtered example_filtered_japan
    by simp
qed

section \<open>The time base\<close>

text \<open>
  Claim C4.  The time base is chosen once, from the full table: when some row of the
  full table has a \<open>year_added\<close>, the filter result is the rows that meet the other
  criteria and whose \<open>year_added\<close> lies in the range; otherwise it is the rows that meet
  the other criteria and whose \<open>release_year\<close> lies in the range.  Every row is checked
  on the same column.
\<close>

theorem time_base_global:
  assumes "apply_filters engine df st = Inr f"
  shows "((\<exists>x\<in>set (rows df). year_added x \<noteq> None) \<longrightarrow>
            f = filter (\<lambda>r. between (year_added r) (year_range st))
                  (filter (\<lambda>r. passes_sets df st r \<and> passes_query engine st r) (rows df)))
       \<and> (\<not> (\<exists>x\<in>set (rows df). year_added x \<noteq> None) \<longrightarrow>
            f = filter (\<lambda>r. between (release_year r) (year_range st))
                  (filter (\<lambda>r. passes_sets df st r \<and> passes_query engine st r) (rows df)))"
  unfolding apply_filters_selected[OF assms] filter_filter use_year_added_iff[symmetric]
  by (auto simp: selected_def time_value_def intro!: filter_cong)

theorem time_base_global_witness:
  "apply_filters no_engine example_table example_state
     = Inr [load_row example_parse example_columns scenario_row]
   \<and> use_year_added example_table
   \<and> [load_row example_parse example_columns scenario_row]
       = filter (\<lambda>r. between (year_added r) (year_range example_state))
           (filter (\<lambda>r. passes_sets example_table example_state r
                         \<and> passes_query no_engine example_state r) (rows example_table))"
  using time_base_global[OF example_filtered] example_uses_year_added example_filtered
  by (simp add: use_year_added_iff)

text \<open>
  Claim C5.  For every table, every year range and every row of the table whose active
  time-base value is absent, the filter result does not contain the row, whatever the
  bounds of the range are.
\<close>

theorem absent_time_excluded:
  assumes "apply_filters engine df st = Inr f" and "r \<in> set (rows df)"
    and "time_value df r = None"
  shows "r \<notin> set f"
  unfolding apply_filters_selected[OF assms(1)] using assms(3)
  by (simp add: selected_def between_def)

theorem absent_time_excluded_witness:
  "apply_filters no_engine example_table example_state
     = Inr [load_row example_parse example_columns scenario_row]
   \<and> load_row example_parse example_columns bare_row \<in> set (rows example_table)
   \<and> time_value example_table (load_row example_parse example_columns bare_row) = None
   \<and> load_row example_parse example_columns bare_row
       \<notin> set [load_row example_parse example_columns scenario_row]"
proof -
  have h2: "load_row example_parse example_columns bare_row \<in> set (rows example_table)"
    by (simp add: example_table_rows)
  have h3: "time_value example_table (load_row example_parse example_columns bare_row) = None"
    by (simp add: time_value_def example_uses_year_added bare_loaded)
  show ?thesis
    using absent_time_excluded[OF example_filtered h2 h3] example_filtered h2 h3 by simp
qed

section \<open>The free-text query\<close>

text \<open>A query made of whitespace imposes no search constraint.\<close>

lemma steps_ignore_query:
  "filter_type (st\<lparr>query := q\<rparr>) = filter_type st"
  "filter_time use (st\<lparr>query := q\<rparr>) = filter_time use st"
  "filter_country (st\<lparr>query := q\<rparr>) = filter_country st"
  "filter_genre (st\<lparr>query := q\<rparr>) = filter_genre st"
  "filter_rating (st\<lparr>query := q\<rparr>) = filter_rating st"
  by (simp_all add: fun_eq_iff filter_type_def filter_time_def filter_country_def
      filter_genre_def filter_rating_def)

lemma filter_query_blank: "strip (query st) = [] \<Longrightarrow> filter_query engine st = Inr"
  by (simp add: fun_eq_iff filter_query_def)

lemma blank_query_no_constraint:
  assumes "list_all is_space (query st)"
  shows "apply_filters engine df st = apply_filters engine df (st\<lparr>query := []\<rparr>)"
proof -
  have "strip (query st) = []" using assms by (simp add: strip_blank_iff)
  then have "filter_query engine st = Inr" by (rule filter_query_blank)
  moreover have "filter_query engine (st\<lparr>query := []\<rparr>) = Inr"
    by (rule filter_query_blank) (simp add: strip_empty)
  ultimately show ?thesis
    unfolding apply_filters_def steps_ignore_query by simp
qed

text \<open>A pattern of ordinary characters only is searched as a substring.\<close>

lemma match_here_literal: "CHR ''.'' \<notin> set pat \<Longrightarrow> match_here pat s = prefix pat s"
  by (induction pat s rule: match_here.induct) auto

lemma re_search_literal: "CHR ''.'' \<notin> set pat \<Longrightarrow> re_search pat s = sublist pat s"
  by (induction s) (auto simp: match_here_literal sublist_Cons_right)

lemma query_mask_literal:
  assumes "CHR ''.'' \<notin> set q"
  shows "query_mask (re_search q) r = substring_mask q r"
  using assms
  by (simp add: query_mask_def substring_mask_def str_contains_def str_lower_def has_substring_def
      re_search_literal split: option.splits)

text \<open>
  On ASCII text, a query whose stripped, lower-cased text holds none of the characters
  \<^verbatim>\<open>. ^ $ * + ? { } [ ] \ | ( )\<close> keeps the rows where that text is a substring of the
  lower-cased title, cast or director.
\<close>

lemma plain_query_substring:
  assumes "apply_filters engine df st = Inr f"
    and "ascii (query st)" and "list_all ascii_row (rows df)"
    and "\<not> list_all is_space (query st)"
    and "\<not> list_ex re_special (strip (lower (query st)))"
    and "CHR ''.'' \<notin> set (strip (lower (query st)))"
  shows "f = filter (\<lambda>r. passes_sets df st r \<and> between (time_value df r) (year_range st)
                        \<and> substring_mask (strip (lower (query st))) r) (rows df)"
proof -
  have "passes_query engine st r = substring_mask (strip (lower (query st))) r" for r
    using assms(4,5) query_mask_literal[OF assms(6)]
    by (simp add: passes_query_def re_compile_def strip_blank_iff)
  then show ?thesis
    unfolding apply_filters_selected[OF assms(1)]
    by (intro filter_cong refl) (simp add: selected_def)
qed

lemma example_table_ascii: "list_all ascii_row (rows example_table)"
  by (simp add: example_table_rows scenario_loaded bare_loaded ascii_row_def ascii_cell_def
      ascii_def)

text \<open>
  Claim C10.  The claim: a query of whitespace imposes no constraint, and otherwise the
  stripped, lower-cased query is matched as a substring of title, cast or director.
  The code hands the stripped, lower-cased query to \<^verbatim>\<open>str.contains\<close>, which compiles it
  as a regular expression.  On the example table the query of a dot between two spaces
  is stripped to a dot; the title, cast and director of the dated row hold no dot, yet
  the filter application keeps the row, because the dot matches any character.
\<close>

theorem dot_query_keeps_row:
  "ascii (query dot_state)
   \<and> list_all ascii_row (rows example_table)
   \<and> strip (lower (query dot_state)) = ''.''
   \<and> \<not> substring_mask ''.'' (load_row example_parse example_columns scenario_row)
   \<and> apply_filters no_engine example_table dot_state
       = Inr [load_row example_parse example_columns scenario_row]"
proof -
  have a: "ascii (query dot_state)"
    by (simp add: dot_state_def example_state_def ascii_def)
  have q: "strip (lower (query dot_state)) = ''.''"
    by (simp add: dot_state_def example_state_def text_defs)
  have n: "\<not> substring_mask ''.'' (load_row example_parse example_columns scenario_row)"
    by (simp add: substring_mask_def has_substring_def scenario_loaded lower_def lower_char_def
        sublist_code)
  have c: "re_compile no_engine ''.'' = Inr (re_search ''.'')"
    by (simp add: re_compile_def re_special_def)
  have m: "query_mask (re_search ''.'') (load_row example_parse example_columns scenario_row)"
    by (simp add: query_mask_def str_contains_def str_lower_def scenario_loaded lower_def
        lower_char_def)
  have s: "strip (query dot_state) \<noteq> []"
    by (simp add: dot_state_def example_state_def strip_def is_space_def)
  have f: "type_sel dot_state = [''Movie''] \<and> country_sel dot_state = []
     \<and> genre_sel dot_state = [] \<and> rating_sel dot_state = []
     \<and> year_range dot_state = (2021, 2021)"
    by (simp add: dot_state_def example_state_def)
  have ok: "columns_ok no_engine example_table dot_state"
    unfolding columns_ok_def q c using f by (simp add: example_table_columns)
  have p1: "selected no_engine example_table dot_state
              (load_row example_parse example_columns scenario_row)"
    unfolding selected_def passes_sets_def passes_query_def q c time_value_def
    using m f by (simp add: example_uses_year_added scenario_loaded between_def isin_def)
  have p2: "\<not> selected no_engine example_table dot_state
              (load_row example_parse example_columns bare_row)"
    unfolding selected_def time_value_def
    by (simp add: example_uses_year_added bare_loaded between_def)
  have "apply_filters no_engine example_table dot_state
          = Inr [load_row example_parse example_columns scenario_row]"
    unfolding apply_filters_succeeds[OF ok] example_table_rows using p1 p2 by simp
  then show ?thesis using a q n example_table_ascii by simp
qed

section \<open>The top genre\<close>

lemma no_genre_table_rows:
  "rows no_genre_table = [load_row example_parse example_columns no_genre_row]"
  by (simp add: no_genre_table_def load_data_def)

lemma no_genre_table_columns:
  "columns no_genre_table =
     [''type'', ''title'', ''director'', ''cast'', ''country'', ''date_added'',
      ''release_year'', ''rating'', ''duration'', ''listed_in'', ''year_added'',
      ''month_added'', ''country_list'', ''genre_list'', ''movie_minutes'', ''seasons'']"
  by (simp add: no_genre_table_def load_data_def add_col_def example_columns_def)

lemma no_genre_filtered:
  "apply_filters no_engine no_genre_table example_state =
     Inr [load_row example_parse example_columns no_genre_row]"
  by (simp add: filter_defs no_genre_table_rows no_genre_table_columns no_genre_loaded
      example_state_def text_defs)

text \<open>
  Claim C9.  The claim: on every filtered subset the top genre is computed without
  error, and it is the placeholder when the subset has no genre entry.  On the table
  whose one row has no genre text, the filter application keeps that row; its
  \<open>genre_list\<close> is the singleton of the empty text, which passes the guard for a
  non-empty list, and after the empty texts are dropped \<^verbatim>\<open>idxmax\<close> is applied to an
  empty series and raises.
\<close>

theorem top_genre_raises:
  "raw_listed_in no_genre_row = None
   \<and> apply_filters no_engine no_genre_table example_state
       = Inr [load_row example_parse example_columns no_genre_row]
   \<and> bind_result (apply_filters no_engine no_genre_table example_state) top_genre
       = Inl ValueError"
proof -
  have "raw_listed_in no_genre_row = None" by (simp add: no_genre_row_def)
  moreover have "top_genre [load_row example_parse example_columns no_genre_row] = Inl ValueError"
    by (simp add: top_genre_def no_genre_loaded explode_def replace_empty_def dropna_def
        value_counts_def first_seen_def)
  ultimately show ?thesis by (simp add: no_genre_filtered bind_result_def)
qed

text \<open>
  Where the top genre is computed: the empty subset gives the placeholder; the error
  arises exactly when some list is non-empty and every entry is the empty text; a
  result that is computed is a non-empty entry that no entry outnumbers.
\<close>

lemma top_genre_empty: "top_genre [] = Inr placeholder"
  by (simp add: top_genre_def)

lemma idxmax_error: "idxmax vc = Inl e \<longleftrightarrow> vc = [] \<and> e = ValueError"
  by (cases vc) auto

lemma first_seen_set: "set (first_seen xs) = set xs"
  by (simp add: first_seen_def)

lemma value_counts_set: "set (value_counts xs) = (\<lambda>v. (v, count_list xs v)) ` set xs"
  by (simp add: value_counts_def first_seen_set)

lemma value_counts_Nil: "value_counts xs = [] \<longleftrightarrow> xs = []"
  using value_counts_set[of xs] by (metis image_is_empty set_empty)

lemma explode_mem: "Some g \<in> set (explode ls) \<longleftrightarrow> (\<exists>l\<in>set ls. g \<in> set l)"
  by (induction ls) (auto simp: explode_def)

lemma replace_empty_mem:
  "Some g \<in> set (replace_empty xs) \<longleftrightarrow> g \<noteq> [] \<and> Some g \<in> set xs"
  by (induction xs) (auto simp: replace_empty_def)

lemma dropna_mem: "g \<in> set (dropna xs) \<longleftrightarrow> Some g \<in> set xs"
  by (simp add: dropna_def map_filter_mem)

lemma entries_set:
  "set (dropna (replace_empty (explode ls))) = {g. g \<noteq> [] \<and> (\<exists>l\<in>set ls. g \<in> set l)}"
  by (auto simp: dropna_mem replace_empty_mem explode_mem)

lemma top_genre_error_iff:
  "top_genre f = Inl e \<longleftrightarrow>
     e = ValueError \<and> f \<noteq> [] \<and> (\<exists>r\<in>set f. genre_list r \<noteq> [])
     \<and> (\<forall>r\<in>set f. \<forall>g\<in>set (genre_list r). g = [])"
proof -
  let ?xs = "dropna (replace_empty (explode (map genre_list f)))"
  have "?xs = [] \<longleftrightarrow> (\<forall>r\<in>set f. \<forall>g\<in>set (genre_list r). g = [])"
    using entries_set[of "map genre_list f"] by (auto simp flip: set_empty)
  then show ?thesis
    by (auto simp: top_genre_def idxmax_error value_counts_Nil list_ex_iff)
qed

lemma fold_best:
  fixes p :: "string \<times> nat"
  shows "fold (\<lambda>q best. if snd best < snd q then q else best) ps p \<in> set (p # ps)
   \<and> (\<forall>q\<in>set (p # ps). snd q \<le> snd (fold (\<lambda>q best. if snd best < snd q then q else best) ps p))"
proof (induction ps arbitrary: p)
  case Nil
  then show ?case by simp
next
  case (Cons a ps)
  show ?case
    using Cons.IH[of "if snd p < snd a then a else p"] by (auto split: if_splits)
qed

lemma idxmax_greatest:
  assumes "idxmax vc = Inr g"
  shows "\<exists>n. (g, n) \<in> set vc \<and> (\<forall>q\<in>set vc. snd q \<le> n)"
proof (cases vc)
  case Nil
  with assms show ?thesis by simp
next
  case (Cons p ps)
  let ?b = "fold (\<lambda>q best. if snd best < snd q then q else best) ps p"
  from assms Cons have "g = fst ?b" by simp
  then have "(g, snd ?b) \<in> set vc \<and> (\<forall>q\<in>set vc. snd q \<le> snd ?b)"
    using fold_best[of ps p] Cons by simp
  then show ?thesis by blast
qed

lemma top_genre_most_frequent:
  assumes "top_genre f = Inr g" and "f \<noteq> []" and "\<exists>r\<in>set f. genre_list r \<noteq> []"
  shows "g \<noteq> [] \<and> (\<exists>r\<in>set f. g \<in> set (genre_list r))
       \<and> (\<forall>h. count_list (dropna (replace_empty (explode (map genre_list f)))) h
              \<le> count_list (dropna (replace_empty (explode (map genre_list f)))) g)"
proof -
  let ?xs = "dropna (replace_empty (explode (map genre_list f)))"
  from assms have "idxmax (value_counts ?xs) = Inr g"
    by (simp add: top_genre_def list_ex_iff)
  then obtain n where n: "(g, n) \<in> set (value_counts ?xs)"
      and mx: "\<forall>q\<in>set (value_counts ?xs). snd q \<le> n"
    using idxmax_greatest by blast
  from n have g: "g \<in> set ?xs" and cn: "n = count_list ?xs g"
    by (auto simp: value_counts_set)
  have "count_list ?xs h \<le> count_list ?xs g" for h
  proof (cases "h \<in> set ?xs")
    case True
    then have "(h, count_list ?xs h) \<in> set (value_counts ?xs)" by (simp add: value_counts_set)
    with mx cn show ?thesis by fastforce
  next
    case False
    then show ?thesis by (simp add: count_list_0_iff)
  qed
  moreover from g have "g \<noteq> [] \<and> (\<exists>r\<in>set f. g \<in> set (genre_list r))"
    using entries_set[of "map genre_list f"] by auto
  ultimately show ?thesis by blast
qed

end
